theory Spec2Isabelle
  imports Complex_Main
begin

section \<open>The image-generation server of \<^verbatim>\<open>app.py\<close>\<close>

text \<open>
  The server is one Python module: module-level configuration, three request models, a few
  helpers and six FastAPI handlers. The handlers are modelled as functions that take the
  world (file system, the sources of identifiers and of time, the log of pipeline
  invocations) and return their outcome with the updated world. The diffusion pipelines, PIL
  and base64 are libraries the module calls; they are parameters of the model.
\<close>

subsection \<open>Values\<close>

type_synonym bytes = "char list"

text \<open>A PIL image: its mode, its size and its raw pixel data.\<close>

datatype image = Image string "nat \<times> nat" bytes

text \<open>The values the handlers pass to a pipeline as keyword arguments.\<close>

datatype pyval = PyStr string | PyInt int | PyFloat real | PyImage image

type_synonym kwargs = "(string \<times> pyval) list"

text \<open>
  A loaded pipeline is called with keyword arguments and either raises (the left summand holds
  \<^verbatim>\<open>str(e)\<close>) or returns an output whose \<^verbatim>\<open>images\<close> is a list. A pipeline draws random
  latents, so its result may differ from call to call: the second argument is the number of
  invocations the process has made before this one.
\<close>

type_synonym pipeline = "kwargs \<Rightarrow> nat \<Rightarrow> string + image list"

datatype pipe_name = Txt2imgPipeline | Img2imgPipeline

text \<open>JSON bodies, and what a handler returns or raises.\<close>

datatype json = JString string | JInt int | JBool bool | JArray "json list"
  | JObject "(string \<times> json) list"

datatype response =
    StreamingResponse "bytes list" string "(string \<times> string) list"
  | JSONResponse json

text \<open>
  \<^verbatim>\<open>HTTPException(status_code, detail)\<close> is answered by FastAPI with that status and the body
  \<^verbatim>\<open>{"detail": detail}\<close>. An exception that leaves a handler uncaught is \<open>Uncaught\<close>.
\<close>

datatype failure = HTTPException nat string | Uncaught string

subsection \<open>Libraries\<close>

text \<open>
  \<open>image_save_png\<close> is \<^verbatim>\<open>image.save(buf, format="PNG")\<close>; \<open>image_open_rgb\<close> is
  \<^verbatim>\<open>Image.open(path).convert("RGB")\<close> applied to the content of the file at \<^verbatim>\<open>path\<close>, which
  raises on content that is no image; \<open>b64encode\<close> is \<^verbatim>\<open>base64.b64encode(..).decode("utf-8")\<close>.
\<close>

record libs =
  image_save_png :: "image \<Rightarrow> bytes"
  image_open_rgb :: "bytes \<Rightarrow> string + image"
  b64encode :: "bytes \<Rightarrow> string"

subsection \<open>Module-level state\<close>

datatype device = cuda | cpu

fun str_device :: "device \<Rightarrow> string" where
  "str_device cuda = ''cuda''"
| "str_device cpu = ''cpu''"

record config =
  MODEL_NAME :: string
  ENABLE_TXT2IMG :: bool
  ENABLE_IMG2IMG :: bool
  XFORMERS_ENABLED :: bool
  device :: device
  txt2img_pipeline :: "pipeline option"
  img2img_pipeline :: "pipeline option"

definition IMAGE_DIR :: string where
  "IMAGE_DIR = ''uploaded_images''"

text \<open>
  \<^verbatim>\<open>get_env_bool\<close> reads a flag of the environment: the value, or \<^verbatim>\<open>str(default)\<close> when the
  variable is unset, lower-cased, is one of \<^verbatim>\<open>"1"\<close>, \<^verbatim>\<open>"true"\<close>, \<^verbatim>\<open>"yes"\<close>.
\<close>

definition lower_char :: "char \<Rightarrow> char" where
  "lower_char c =
     (if (65::nat) \<le> of_char c \<and> of_char c \<le> (90::nat) then char_of (of_char c + (32::nat)) else c)"

definition str_bool :: "bool \<Rightarrow> string" where
  "str_bool b = (if b then ''True'' else ''False'')"

definition get_env_bool :: "(string \<rightharpoonup> string) \<Rightarrow> string \<Rightarrow> bool \<Rightarrow> bool" where
  "get_env_bool environ var_name dflt =
     (map lower_char (case environ var_name of None \<Rightarrow> str_bool dflt | Some v \<Rightarrow> v)
        \<in> set [''1'', ''true'', ''yes''])"

text \<open>
  The module-level assignments: the configuration read from the environment, the device
  chosen by \<^verbatim>\<open>torch.cuda.is_available()\<close>, and both pipeline references still \<^verbatim>\<open>None\<close>.
\<close>

definition module_config :: "(string \<rightharpoonup> string) \<Rightarrow> bool \<Rightarrow> config" where
  "module_config environ cuda_is_available =
     \<lparr>MODEL_NAME = (case environ ''MODEL_NAME'' of None \<Rightarrow> ''stabilityai/sdxl-turbo'' | Some v \<Rightarrow> v),
      ENABLE_TXT2IMG = get_env_bool environ ''ENABLE_TXT2IMG'' True,
      ENABLE_IMG2IMG = get_env_bool environ ''ENABLE_IMG2IMG'' True,
      XFORMERS_ENABLED = get_env_bool environ ''XFORMERS_ENABLED'' False,
      device = (if cuda_is_available then cuda else cpu),
      txt2img_pipeline = None,
      img2img_pipeline = None\<rparr>"

text \<open>
  \<^verbatim>\<open>load_models\<close> runs at startup. The two \<^verbatim>\<open>from_pretrained\<close> calls are library calls that
  may raise; the second one receives the components of the base pipeline. Any exception
  becomes a \<^verbatim>\<open>RuntimeError\<close> whose message is the left summand.
\<close>

record loaders =
  text2image_from_pretrained :: "string \<Rightarrow> string + pipeline"
  image2image_from_pretrained :: "string \<Rightarrow> pipeline \<Rightarrow> string + pipeline"

definition load_models :: "loaders \<Rightarrow> config \<Rightarrow> string + config" where
  "load_models ld cfg =
     (if ENABLE_TXT2IMG cfg \<or> ENABLE_IMG2IMG cfg
      then
        (case text2image_from_pretrained ld (MODEL_NAME cfg) of
           Inl e \<Rightarrow> Inl (''Failed to initialize model: '' @ e)
         | Inr base_pipeline \<Rightarrow>
             (let cfg1 = (if ENABLE_TXT2IMG cfg then cfg\<lparr>txt2img_pipeline := Some base_pipeline\<rparr> else cfg)
              in if ENABLE_IMG2IMG cfg
                 then
                   (case image2image_from_pretrained ld (MODEL_NAME cfg) base_pipeline of
                      Inl e \<Rightarrow> Inl (''Failed to initialize model: '' @ e)
                    | Inr p \<Rightarrow> Inr (cfg1\<lparr>img2img_pipeline := Some p\<rparr>))
                 else Inr cfg1))
      else Inr cfg)"

subsection \<open>The world\<close>

text \<open>
  \<open>files\<close> maps a path to the content of the file there. \<open>write_error\<close> says for which paths
  opening the file for writing raises, and with what message. \<^verbatim>\<open>uuid4()\<close> and
  \<^verbatim>\<open>time.time()\<close> read the next value of their source; \<open>time_values\<close> holds the seconds
  already truncated by \<^verbatim>\<open>int\<close>. \<open>calls\<close> logs every pipeline invocation, oldest first.
\<close>

record world =
  files :: "string \<rightharpoonup> bytes"
  write_error :: "string \<Rightarrow> string option"
  uuid_values :: "nat \<Rightarrow> string"
  uuid_count :: nat
  time_values :: "nat \<Rightarrow> int"
  time_count :: nat
  calls :: "(pipe_name \<times> kwargs) list"

definition uuid4 :: "world \<Rightarrow> string \<times> world" where
  "uuid4 w = (uuid_values w (uuid_count w), w\<lparr>uuid_count := Suc (uuid_count w)\<rparr>)"

definition time_time :: "world \<Rightarrow> int \<times> world" where
  "time_time w = (time_values w (time_count w), w\<lparr>time_count := Suc (time_count w)\<rparr>)"

definition fs_write :: "string \<Rightarrow> bytes \<Rightarrow> world \<Rightarrow> string + world" where
  "fs_write path content w =
     (case write_error w path of
        Some e \<Rightarrow> Inl e
      | None \<Rightarrow> Inr (w\<lparr>files := (files w)(path \<mapsto> content)\<rparr>))"

definition os_path_exists :: "world \<Rightarrow> string \<Rightarrow> bool" where
  "os_path_exists w path = (files w path \<noteq> None)"

text \<open>
  \<^verbatim>\<open>os.path.join(a, b)\<close> on POSIX: an absolute \<open>b\<close> replaces \<open>a\<close>. The \<^verbatim>\<open>/\<close> of pathlib in
  \<^verbatim>\<open>save_image_and_get_url\<close> joins the same way for the names the server builds there (the
  text of a UUID followed by \<^verbatim>\<open>.png\<close>).
\<close>

definition os_path_join :: "string \<Rightarrow> string \<Rightarrow> string" where
  "os_path_join a b =
     (if b \<noteq> [] \<and> hd b = CHR ''/'' then b
      else if a = [] \<or> last a = CHR ''/'' then a @ b
      else a @ ''/'' @ b)"

definition invoke :: "pipe_name \<Rightarrow> pipeline \<Rightarrow> kwargs \<Rightarrow> world \<Rightarrow> (string + image list) \<times> world" where
  "invoke name pipe args w = (pipe args (length (calls w)), w\<lparr>calls := calls w @ [(name, args)]\<rparr>)"

subsection \<open>Request models\<close>

record Txt2ImgInput =
  prompt :: string
  negative_prompt :: string
  num_inference_steps :: int
  guidance_scale :: real

record Img2ImgInput =
  prompt :: string
  negative_prompt :: string
  file_id :: string
  num_inference_steps :: int
  strength :: real
  guidance_scale :: real

record ImageGenerationRequest =
  prompt :: string
  n :: int
  size :: string
  response_format :: string

text \<open>
  pydantic builds a request model from the JSON body: a required field must be there, an
  optional field that is absent takes the default written in the class.
\<close>

definition parse_Txt2ImgInput :: "string \<Rightarrow> string option \<Rightarrow> int option \<Rightarrow> real option \<Rightarrow> Txt2ImgInput" where
  "parse_Txt2ImgInput p np steps gs =
     \<lparr>Txt2ImgInput.prompt = p,
      negative_prompt = (case np of None \<Rightarrow> [] | Some v \<Rightarrow> v),
      num_inference_steps = (case steps of None \<Rightarrow> 4 | Some v \<Rightarrow> v),
      guidance_scale = (case gs of None \<Rightarrow> 7.5 | Some v \<Rightarrow> v)\<rparr>"

definition parse_Img2ImgInput ::
  "string \<Rightarrow> string option \<Rightarrow> string \<Rightarrow> int option \<Rightarrow> real option \<Rightarrow> real option \<Rightarrow> Img2ImgInput" where
  "parse_Img2ImgInput p np fid steps st gs =
     \<lparr>Img2ImgInput.prompt = p,
      negative_prompt = (case np of None \<Rightarrow> [] | Some v \<Rightarrow> v),
      file_id = fid,
      num_inference_steps = (case steps of None \<Rightarrow> 4 | Some v \<Rightarrow> v),
      strength = (case st of None \<Rightarrow> 0.5 | Some v \<Rightarrow> v),
      guidance_scale = (case gs of None \<Rightarrow> 7.5 | Some v \<Rightarrow> v)\<rparr>"

definition parse_ImageGenerationRequest ::
  "string \<Rightarrow> int option \<Rightarrow> string option \<Rightarrow> string option \<Rightarrow> ImageGenerationRequest" where
  "parse_ImageGenerationRequest p cnt sz fmt =
     \<lparr>ImageGenerationRequest.prompt = p,
      n = (case cnt of None \<Rightarrow> 1 | Some v \<Rightarrow> v),
      size = (case sz of None \<Rightarrow> ''512x512'' | Some v \<Rightarrow> v),
      response_format = (case fmt of None \<Rightarrow> ''url'' | Some v \<Rightarrow> v)\<rparr>"

subsection \<open>Helpers\<close>

text \<open>\<^verbatim>\<open>stream_image\<close> saves the image as PNG and yields it in chunks of 1024 bytes.\<close>

function read_chunks :: "bytes \<Rightarrow> bytes list" where
  "read_chunks buf =
     (if take 1024 buf = [] then [] else take 1024 buf # read_chunks (drop 1024 buf))"
  by pat_completeness auto
termination
  by (relation "measure length") auto

declare read_chunks.simps [simp del]

definition stream_image :: "libs \<Rightarrow> image \<Rightarrow> bytes list" where
  "stream_image L img = read_chunks (image_save_png L img)"

definition save_image_and_get_url :: "libs \<Rightarrow> image \<Rightarrow> string \<Rightarrow> world \<Rightarrow> (string + string) \<times> world" where
  "save_image_and_get_url L img fid w =
     (case fs_write (os_path_join ''output_images'' (fid @ ''.png'')) (image_save_png L img) w of
        Inl e \<Rightarrow> (Inl e, w)
      | Inr w1 \<Rightarrow> (Inr (''/output_images/'' @ fid @ ''.png''), w1))"

definition encode_image_to_base64 :: "libs \<Rightarrow> image \<Rightarrow> string" where
  "encode_image_to_base64 L img = b64encode L (image_save_png L img)"

subsection \<open>Endpoints\<close>

definition txt2img :: "libs \<Rightarrow> config \<Rightarrow> Txt2ImgInput \<Rightarrow> world \<Rightarrow> (failure + response) \<times> world" where
  "txt2img L cfg input_data w =
     (if \<not> ENABLE_TXT2IMG cfg \<or> txt2img_pipeline cfg = None
      then (Inl (HTTPException 400 ''txt2img is disabled on this server.''), w)
      else
        (case invoke Txt2imgPipeline (the (txt2img_pipeline cfg))
                [(''prompt'', PyStr (Txt2ImgInput.prompt input_data)),
                 (''negative_prompt'', PyStr (Txt2ImgInput.negative_prompt input_data)),
                 (''num_inference_steps'', PyInt (Txt2ImgInput.num_inference_steps input_data)),
                 (''guidance_scale'', PyFloat (Txt2ImgInput.guidance_scale input_data))] w of
           (Inl e, w1) \<Rightarrow> (Inl (HTTPException 500 e), w1)
         | (Inr [], w1) \<Rightarrow> (Inl (HTTPException 500 ''list index out of range''), w1)
         | (Inr (img # _), w1) \<Rightarrow>
             (case uuid4 w1 of
                (u, w2) \<Rightarrow>
                  (Inr (StreamingResponse (stream_image L img) ''image/png''
                          [(''Content-Disposition'', ''attachment; filename='' @ u @ ''.png'')]),
                   w2))))"

text \<open>
  \<^verbatim>\<open>UploadFile\<close>: \<open>file_read\<close> is what \<^verbatim>\<open>await file.read()\<close> gives, the content or the
  message of the exception it raises.
\<close>

record UploadFile =
  filename :: string
  file_read :: "string + bytes"

definition upload_image :: "UploadFile \<Rightarrow> world \<Rightarrow> (failure + response) \<times> world" where
  "upload_image file w =
     (case uuid4 w of
        (file_uuid, w1) \<Rightarrow>
          (case file_read file of
             Inl e \<Rightarrow> (Inl (HTTPException 500 e), w1)
           | Inr file_content \<Rightarrow>
               (case fs_write (os_path_join IMAGE_DIR (file_uuid @ ''.png'')) file_content w1 of
                  Inl e \<Rightarrow> (Inl (HTTPException 500 e), w1)
                | Inr w2 \<Rightarrow> (Inr (JSONResponse (JObject [(''file_id'', JString file_uuid)])), w2))))"

text \<open>
  In \<^verbatim>\<open>img2img\<close> the image is opened before the \<^verbatim>\<open>try\<close>: an exception there is not
  turned into an \<^verbatim>\<open>HTTPException\<close>.
\<close>

definition img2img :: "libs \<Rightarrow> config \<Rightarrow> Img2ImgInput \<Rightarrow> world \<Rightarrow> (failure + response) \<times> world" where
  "img2img L cfg input_data w =
     (if \<not> ENABLE_IMG2IMG cfg \<or> img2img_pipeline cfg = None
      then (Inl (HTTPException 400 ''img2img is disabled on this server.''), w)
      else if \<not> os_path_exists w (os_path_join IMAGE_DIR (file_id input_data @ ''.png''))
      then (Inl (HTTPException 404 ''Uploaded file not found on disk.''), w)
      else
        (case image_open_rgb L (the (files w (os_path_join IMAGE_DIR (file_id input_data @ ''.png'')))) of
           Inl e \<Rightarrow> (Inl (Uncaught e), w)
         | Inr pil_image \<Rightarrow>
             (case invoke Img2imgPipeline (the (img2img_pipeline cfg))
                     [(''prompt'', PyStr (Img2ImgInput.prompt input_data)),
                      (''negative_prompt'', PyStr (Img2ImgInput.negative_prompt input_data)),
                      (''image'', PyImage pil_image),
                      (''num_inference_steps'', PyInt (Img2ImgInput.num_inference_steps input_data)),
                      (''strength'', PyFloat (strength input_data)),
                      (''guidance_scale'', PyFloat (Img2ImgInput.guidance_scale input_data))] w of
                (Inl e, w1) \<Rightarrow> (Inl (HTTPException 500 e), w1)
              | (Inr [], w1) \<Rightarrow> (Inl (HTTPException 500 ''list index out of range''), w1)
              | (Inr (img # _), w1) \<Rightarrow>
                  (case uuid4 w1 of
                     (u, w2) \<Rightarrow>
                       (Inr (StreamingResponse (stream_image L img) ''image/png''
                               [(''Content-Disposition'', ''attachment; filename='' @ u @ ''.png'')]),
                        w2)))))"

text \<open>
  The two list comprehensions of \<^verbatim>\<open>generate_images\<close>. Each entry is built in the order of
  its dict literal: the clock is read, then the image is saved or encoded. \<open>rid\<close> is the
  \<^verbatim>\<open>id\<close> of the request.
\<close>

fun url_responses :: "libs \<Rightarrow> string \<Rightarrow> image list \<Rightarrow> world \<Rightarrow> (string + json list) \<times> world" where
  "url_responses L rid [] w = (Inr [], w)"
| "url_responses L rid (img # imgs) w =
     (case time_time w of
        (created, w1) \<Rightarrow>
          (case save_image_and_get_url L img rid w1 of
             (Inl e, w2) \<Rightarrow> (Inl e, w2)
           | (Inr url, w2) \<Rightarrow>
               (case url_responses L rid imgs w2 of
                  (Inl e, w3) \<Rightarrow> (Inl e, w3)
                | (Inr rest, w3) \<Rightarrow>
                    (Inr (JObject [(''id'', JString rid), (''object'', JString ''image''),
                                   (''created'', JInt created), (''url'', JString url)] # rest),
                     w3))))"

fun b64_responses :: "libs \<Rightarrow> string \<Rightarrow> image list \<Rightarrow> world \<Rightarrow> json list \<times> world" where
  "b64_responses L rid [] w = ([], w)"
| "b64_responses L rid (img # imgs) w =
     (case time_time w of
        (created, w1) \<Rightarrow>
          (case b64_responses L rid imgs w1 of
             (rest, w2) \<Rightarrow>
               (JObject [(''id'', JString rid), (''object'', JString ''image''),
                         (''created'', JInt created),
                         (''b64_json'', JString (encode_image_to_base64 L img))] # rest,
                w2)))"

definition generate_images :: "libs \<Rightarrow> config \<Rightarrow> ImageGenerationRequest \<Rightarrow> world \<Rightarrow> (failure + response) \<times> world" where
  "generate_images L cfg request w =
     (if \<not> ENABLE_TXT2IMG cfg \<or> txt2img_pipeline cfg = None
      then (Inl (HTTPException 503 ''Text-to-Image generation is unavailable.''), w)
      else
        (case invoke Txt2imgPipeline (the (txt2img_pipeline cfg))
                [(''prompt'', PyStr (ImageGenerationRequest.prompt request)),
                 (''num_inference_steps'', PyInt 30),
                 (''guidance_scale'', PyFloat 7.5),
                 (''num_images_per_prompt'', PyInt (n request))] w of
           (Inl e, w1) \<Rightarrow> (Inl (HTTPException 500 ''Internal server error.''), w1)
         | (Inr images, w1) \<Rightarrow>
             (case uuid4 w1 of
                (rid, w2) \<Rightarrow>
                  (if response_format request = ''url''
                   then
                     (case url_responses L rid images w2 of
                        (Inl e, w3) \<Rightarrow> (Inl (HTTPException 500 ''Internal server error.''), w3)
                      | (Inr responses, w3) \<Rightarrow>
                          (Inr (JSONResponse (JObject [(''data'', JArray responses)])), w3))
                   else
                     (case b64_responses L rid images w2 of
                        (responses, w3) \<Rightarrow>
                          (Inr (JSONResponse (JObject [(''data'', JArray responses)])), w3))))))"

definition health_check :: "config \<Rightarrow> world \<Rightarrow> (failure + response) \<times> world" where
  "health_check cfg w =
     (Inr (JSONResponse (JObject
        [(''status'', JString ''ok''),
         (''device'', JString (str_device (device cfg))),
         (''model'', JString (MODEL_NAME cfg)),
         (''enable_txt2img'', JBool (ENABLE_TXT2IMG cfg)),
         (''enable_img2img'', JBool (ENABLE_IMG2IMG cfg))])),
      w)"

subsection \<open>The event loop\<close>

text \<open>
  Every handler is a coroutine of one asyncio event loop. The loop runs one coroutine at a
  time, and a running coroutine keeps the thread until it finishes or reaches an
  \<^verbatim>\<open>await\<close> that suspends it. What matters of a handler here is the order of its lock
  operations, of the entry into and the return from the pipeline call (an ordinary,
  synchronous call: it returns or raises before the coroutine does anything else), and of
  its suspending awaits.

  \<^verbatim>\<open>txt2img\<close> and \<^verbatim>\<open>img2img\<close> hold the module's \<^verbatim>\<open>gpu_lock\<close> around the pipeline call.
  \<^verbatim>\<open>generate_images\<close> writes \<^verbatim>\<open>async with asyncio.Lock()\<close>: a lock made for this one
  request, \<open>request_lock t\<close> for task \<open>t\<close>. \<^verbatim>\<open>upload_image\<close> awaits the read of the upload.
  The flag of \<open>handler_code\<close> says whether the request passes the handler's guards (the
  capability is enabled, the upload exists and opens).
\<close>

datatype lock = gpu_lock | request_lock nat

datatype instr = Acquire lock | Release lock | PipelineEnter | PipelineExit | AwaitIO

datatype endpoint = Txt2img | Upload | Img2img | Generations | Health

fun handler_code :: "endpoint \<Rightarrow> bool \<Rightarrow> nat \<Rightarrow> instr list" where
  "handler_code Txt2img passes t =
     (if passes then [Acquire gpu_lock, PipelineEnter, PipelineExit, Release gpu_lock] else [])"
| "handler_code Upload passes t = [AwaitIO]"
| "handler_code Img2img passes t =
     (if passes then [Acquire gpu_lock, PipelineEnter, PipelineExit, Release gpu_lock] else [])"
| "handler_code Generations passes t =
     (if passes
      then [Acquire (request_lock t), PipelineEnter, PipelineExit, Release (request_lock t)]
      else [])"
| "handler_code Health passes t = []"

definition server_code :: "(nat \<Rightarrow> endpoint \<times> bool) \<Rightarrow> nat \<Rightarrow> instr list" where
  "server_code reqs t = handler_code (fst (reqs t)) (snd (reqs t)) t"

text \<open>
  The state of the loop: the program counter of every task, the locks that are taken, and
  the task that has the thread, if any.
\<close>

record loop_state =
  pc :: "nat \<Rightarrow> nat"
  locked :: "lock \<Rightarrow> bool"
  running :: "nat option"

definition initial :: loop_state where
  "initial = \<lparr>pc = (\<lambda>t. 0), locked = (\<lambda>l. False), running = None\<rparr>"

text \<open>
  One instruction of the running task \<open>t\<close>. Acquiring a free lock does not suspend; acquiring
  a taken one suspends the task, which tries again when it is resumed.
\<close>

fun exec :: "instr \<Rightarrow> nat \<Rightarrow> loop_state \<Rightarrow> loop_state" where
  "exec (Acquire l) t s =
     (if locked s l then s\<lparr>running := None\<rparr>
      else s\<lparr>pc := (pc s)(t := Suc (pc s t)), locked := (locked s)(l := True)\<rparr>)"
| "exec (Release l) t s = s\<lparr>pc := (pc s)(t := Suc (pc s t)), locked := (locked s)(l := False)\<rparr>"
| "exec PipelineEnter t s = s\<lparr>pc := (pc s)(t := Suc (pc s t))\<rparr>"
| "exec PipelineExit t s = s\<lparr>pc := (pc s)(t := Suc (pc s t))\<rparr>"
| "exec AwaitIO t s = s\<lparr>pc := (pc s)(t := Suc (pc s t)), running := None\<rparr>"

text \<open>
  One step of the loop. With no task running, the loop resumes the task \<open>choice\<close> if it has
  not finished; otherwise the running task executes its next instruction, or finishes.
\<close>

definition loop_step :: "(nat \<Rightarrow> instr list) \<Rightarrow> nat \<Rightarrow> loop_state \<Rightarrow> loop_state" where
  "loop_step code choice s =
     (case running s of
        None \<Rightarrow> (if pc s choice < length (code choice) then s\<lparr>running := Some choice\<rparr> else s)
      | Some t \<Rightarrow>
          (if pc s t < length (code t) then exec (code t ! pc s t) t s else s\<lparr>running := None\<rparr>))"

fun loop_run :: "(nat \<Rightarrow> instr list) \<Rightarrow> nat list \<Rightarrow> loop_state \<Rightarrow> loop_state" where
  "loop_run code [] s = s"
| "loop_run code (c # cs) s = loop_run code cs (loop_step code c s)"

text \<open>A task is inside the pipeline when it has entered it and not yet left it.\<close>

definition in_pipeline :: "(nat \<Rightarrow> instr list) \<Rightarrow> loop_state \<Rightarrow> nat \<Rightarrow> bool" where
  "in_pipeline code s t =
     (0 < pc s t \<and> pc s t \<le> length (code t) \<and> code t ! (pc s t - 1) = PipelineEnter)"

text \<open>
  Two properties used to reason about the loop. In \<open>enter_then_exit\<close> code, the instruction
  after every entry into the pipeline is the return from it: no lock operation and no
  suspending await stands in between. In a state with \<open>pipeline_owner\<close>, a task that is inside
  the pipeline is the running task, and its next instruction is the return.
\<close>

definition enter_then_exit :: "(nat \<Rightarrow> instr list) \<Rightarrow> bool" where
  "enter_then_exit code =
     (\<forall>t i. i < length (code t) \<and> code t ! i = PipelineEnter
        \<longrightarrow> Suc i < length (code t) \<and> code t ! Suc i = PipelineExit)"

definition pipeline_owner :: "(nat \<Rightarrow> instr list) \<Rightarrow> loop_state \<Rightarrow> bool" where
  "pipeline_owner code s =
     (\<forall>t. in_pipeline code s t
        \<longrightarrow> running s = Some t \<and> pc s t < length (code t) \<and> code t ! pc s t = PipelineExit)"

subsection \<open>Routes\<close>

text \<open>
  The routes of the application, and the server handling requests one after the other.
\<close>

datatype request =
    POST_txt2img Txt2ImgInput
  | POST_upload UploadFile
  | POST_img2img Img2ImgInput
  | POST_generations ImageGenerationRequest
  | GET_health

fun serve :: "libs \<Rightarrow> config \<Rightarrow> request \<Rightarrow> world \<Rightarrow> (failure + response) \<times> world" where
  "serve L cfg (POST_txt2img input_data) w = txt2img L cfg input_data w"
| "serve L cfg (POST_upload file) w = upload_image file w"
| "serve L cfg (POST_img2img input_data) w = img2img L cfg input_data w"
| "serve L cfg (POST_generations request) w = generate_images L cfg request w"
| "serve L cfg GET_health w = health_check cfg w"

fun serve_all :: "libs \<Rightarrow> config \<Rightarrow> request list \<Rightarrow> world \<Rightarrow> world" where
  "serve_all L cfg [] w = w"
| "serve_all L cfg (r # rs) w = serve_all L cfg rs (snd (serve L cfg r w))"

subsection \<open>Example values\<close>

text \<open>
  A library whose PNG encoding prefixes the pixel data, a pipeline that returns three images
  whatever it is asked, one that always raises, a server with both capabilities loaded, one
  with both disabled, and a world with an empty file system whose clock stands still.
\<close>

definition example_libs :: libs where
  "example_libs =
     \<lparr>image_save_png = (\<lambda>i. case i of Image m sz px \<Rightarrow> ''PNG'' @ px),
      image_open_rgb = (\<lambda>b. if b = [] then Inl ''cannot identify image file'' else Inr (Image ''RGB'' (1, 1) b)),
      b64encode = (\<lambda>b. b)\<rparr>"

definition three_images :: pipeline where
  "three_images args k =
     Inr [Image ''RGB'' (1, 1) ''a'', Image ''RGB'' (1, 1) ''b'', Image ''RGB'' (1, 1) ''c'']"

definition out_of_memory :: pipeline where
  "out_of_memory args k = Inl ''CUDA out of memory''"

definition example_config :: config where
  "example_config =
     \<lparr>MODEL_NAME = ''stabilityai/sdxl-turbo'', ENABLE_TXT2IMG = True, ENABLE_IMG2IMG = True,
      XFORMERS_ENABLED = False, device = cuda,
      txt2img_pipeline = Some three_images, img2img_pipeline = Some three_images\<rparr>"

definition failing_config :: config where
  "failing_config =
     example_config\<lparr>txt2img_pipeline := Some out_of_memory, img2img_pipeline := Some out_of_memory\<rparr>"

definition disabled_config :: config where
  "disabled_config =
     \<lparr>MODEL_NAME = ''stabilityai/sdxl-turbo'', ENABLE_TXT2IMG = False, ENABLE_IMG2IMG = False,
      XFORMERS_ENABLED = False, device = cpu,
      txt2img_pipeline = None, img2img_pipeline = None\<rparr>"

definition example_world :: world where
  "example_world =
     \<lparr>files = Map.empty, write_error = (\<lambda>p. None),
      uuid_values = (\<lambda>k. if k = 0 then ''3f2b8c1e-0000-4000-8000-000000000000''
                          else ''3f2b8c1e-0000-4000-8000-000000000001''),
      uuid_count = 0,
      time_values = (\<lambda>k. 1700000000), time_count = 0, calls = []\<rparr>"


definition example_upload :: UploadFile where
  "example_upload = \<lparr>filename = ''cat.png'', file_read = Inr ''pixels''\<rparr>"

text \<open>The world after \<open>example_upload\<close> was uploaded into \<open>example_world\<close>.\<close>

definition stored_world :: world where
  "stored_world = snd (upload_image example_upload example_world)"

section \<open>Properties\<close>

subsection \<open>Configuration\<close>

lemma lower_True: "map lower_char ''True'' = ''true''"
  by code_simp

lemma lower_False: "map lower_char ''False'' = ''false''"
  by code_simp

lemma lower_str_bool: "map lower_char (str_bool b) = (if b then ''true'' else ''false'')"
  by (cases b) (simp_all only: str_bool_def if_True if_False lower_True lower_False)

lemma get_env_bool_unset: "environ var_name = None \<Longrightarrow> get_env_bool environ var_name dflt = dflt"
  by (simp add: get_env_bool_def lower_str_bool)

text \<open>After a startup that succeeded, a pipeline is loaded exactly when its flag is set.\<close>

lemma load_models_flags:
  assumes "load_models ld cfg = Inr cfg'"
  shows "ENABLE_TXT2IMG cfg' = ENABLE_TXT2IMG cfg \<and> ENABLE_IMG2IMG cfg' = ENABLE_IMG2IMG cfg
    \<and> MODEL_NAME cfg' = MODEL_NAME cfg \<and> device cfg' = device cfg"
  using assms by (auto simp: load_models_def Let_def split: if_splits sum.splits)

lemma load_models_pipelines:
  assumes "load_models ld cfg = Inr cfg'"
    and "txt2img_pipeline cfg = None" and "img2img_pipeline cfg = None"
  shows "(txt2img_pipeline cfg' \<noteq> None) = ENABLE_TXT2IMG cfg
    \<and> (img2img_pipeline cfg' \<noteq> None) = ENABLE_IMG2IMG cfg"
  using assms by (auto simp: load_models_def Let_def split: if_splits sum.splits)

subsection \<open>Streaming\<close>

text \<open>
  The chunks that \<^verbatim>\<open>stream_image\<close> yields are the PNG bytes cut into pieces: none is empty,
  none is longer than 1024 bytes, and together they are the bytes.
\<close>

lemma concat_read_chunks: "concat (read_chunks buf) = buf"
proof (induction buf rule: read_chunks.induct)
  case (1 buf)
  have eq: "read_chunks buf
      = (if take 1024 buf = [] then [] else take 1024 buf # read_chunks (drop 1024 buf))"
    by (rule read_chunks.simps)
  show ?case
  proof (cases "take 1024 buf = []")
    case True
    then have "buf = []" by (cases buf) simp_all
    with eq show ?thesis by simp
  next
    case False
    from "1.IH" [OF False] have "concat (read_chunks (drop 1024 buf)) = drop 1024 buf" .
    with False eq have "concat (read_chunks buf) = take 1024 buf @ drop 1024 buf"
      by simp
    then show ?thesis by simp
  qed
qed

lemma read_chunks_bound:
  assumes "chunk \<in> set (read_chunks buf)"
  shows "chunk \<noteq> [] \<and> length chunk \<le> 1024"
  using assms
proof (induction buf rule: read_chunks.induct)
  case (1 buf)
  have eq: "read_chunks buf
      = (if take 1024 buf = [] then [] else take 1024 buf # read_chunks (drop 1024 buf))"
    by (rule read_chunks.simps)
  show ?case
  proof (cases "take 1024 buf = []")
    case True
    with eq have "read_chunks buf = []" by simp
    with "1.prems" show ?thesis by simp
  next
    case False
    with eq have "read_chunks buf = take 1024 buf # read_chunks (drop 1024 buf)"
      by simp
    with "1.prems" have "chunk = take 1024 buf \<or> chunk \<in> set (read_chunks (drop 1024 buf))"
      by simp
    then show ?thesis
    proof
      assume "chunk = take 1024 buf"
      with False show ?thesis by simp
    next
      assume "chunk \<in> set (read_chunks (drop 1024 buf))"
      with "1.IH" [OF False] show ?thesis by blast
    qed
  qed
qed

subsection \<open>Disabled capabilities\<close>

text \<open>
  Claim C3. A request to an endpoint whose capability is disabled (the flag is off, or the
  pipeline was not loaded) is answered with the disabled-capability error: status 400 from
  \<^verbatim>\<open>/txt2img\<close> and \<^verbatim>\<open>/img2img\<close>, status 503 from \<^verbatim>\<open>/v1/images/generations\<close>. The world
  is returned as it was, so the log of pipeline invocations has not grown.
\<close>

theorem disabled_capability_rejected:
  "(\<not> ENABLE_TXT2IMG cfg \<or> txt2img_pipeline cfg = None \<longrightarrow>
      txt2img L cfg input_data w = (Inl (HTTPException 400 ''txt2img is disabled on this server.''), w)
      \<and> generate_images L cfg request w
          = (Inl (HTTPException 503 ''Text-to-Image generation is unavailable.''), w))
   \<and> (\<not> ENABLE_IMG2IMG cfg \<or> img2img_pipeline cfg = None \<longrightarrow>
      img2img L cfg input_data' w = (Inl (HTTPException 400 ''img2img is disabled on this server.''), w))"
  by (simp add: txt2img_def generate_images_def img2img_def)

theorem disabled_capability_rejected_witness:
  "\<not> ENABLE_TXT2IMG disabled_config \<and> \<not> ENABLE_IMG2IMG disabled_config
   \<and> txt2img example_libs disabled_config (parse_Txt2ImgInput ''a cat'' None None None) example_world
       = (Inl (HTTPException 400 ''txt2img is disabled on this server.''), example_world)
   \<and> generate_images example_libs disabled_config
         (parse_ImageGenerationRequest ''a cat'' (Some 3) None None) example_world
       = (Inl (HTTPException 503 ''Text-to-Image generation is unavailable.''), example_world)
   \<and> img2img example_libs disabled_config
         (parse_Img2ImgInput ''a cat'' None ''abc'' None None None) example_world
       = (Inl (HTTPException 400 ''img2img is disabled on this server.''), example_world)
   \<and> calls example_world = []"
  using disabled_capability_rejected [of disabled_config example_libs
      "parse_Txt2ImgInput ''a cat'' None None None" example_world
      "parse_ImageGenerationRequest ''a cat'' (Some 3) None None"
      "parse_Img2ImgInput ''a cat'' None ''abc'' None None None"]
  by (simp add: disabled_config_def example_world_def)

subsection \<open>Unknown uploads\<close>

text \<open>
  Claim C4, as stated, fails on a server whose img2img capability is disabled: the handler
  checks the capability before it looks for the file, and answers 400.
\<close>

theorem unknown_file_id_not_found_counterexample:
  "\<not> os_path_exists example_world (os_path_join IMAGE_DIR (''no-such-upload'' @ ''.png''))
   \<and> img2img example_libs disabled_config
         (parse_Img2ImgInput ''a cat'' None ''no-such-upload'' None None None) example_world
       = (Inl (HTTPException 400 ''img2img is disabled on this server.''), example_world)"
  by (simp add: img2img_def disabled_config_def os_path_exists_def example_world_def)

text \<open>
  Claim C4, amended. On a server whose img2img capability is enabled and loaded, a request
  to \<^verbatim>\<open>/img2img\<close> for which no file \<^verbatim>\<open>uploaded_images/<file_id>.png\<close> exists is answered
  with status 404, and the world is returned as it was: no pipeline was invoked.
\<close>

theorem unknown_file_id_not_found:
  assumes "ENABLE_IMG2IMG cfg" and "img2img_pipeline cfg \<noteq> None"
    and "\<not> os_path_exists w (os_path_join IMAGE_DIR (file_id input_data @ ''.png''))"
  shows "img2img L cfg input_data w = (Inl (HTTPException 404 ''Uploaded file not found on disk.''), w)"
  using assms by (simp add: img2img_def)

theorem unknown_file_id_not_found_witness:
  "ENABLE_IMG2IMG example_config \<and> img2img_pipeline example_config \<noteq> None
   \<and> \<not> os_path_exists example_world (os_path_join IMAGE_DIR (''no-such-upload'' @ ''.png''))
   \<and> img2img example_libs example_config
         (parse_Img2ImgInput ''a cat'' None ''no-such-upload'' None None None) example_world
       = (Inl (HTTPException 404 ''Uploaded file not found on disk.''), example_world)
   \<and> calls example_world = []"
proof -
  have a: "ENABLE_IMG2IMG example_config" and b: "img2img_pipeline example_config \<noteq> None"
    by (simp_all add: example_config_def)
  have c: "\<not> os_path_exists example_world
      (os_path_join IMAGE_DIR
         (file_id (parse_Img2ImgInput ''a cat'' None ''no-such-upload'' None None None) @ ''.png''))"
    by (simp add: os_path_exists_def example_world_def)
  have d: "calls example_world = []"
    by (simp add: example_world_def)
  from unknown_file_id_not_found [OF a b c, of example_libs] a b c d show ?thesis
    by (simp add: parse_Img2ImgInput_def)
qed

subsection \<open>The size field\<close>

text \<open>
  Claim C6. Two requests to \<^verbatim>\<open>/v1/images/generations\<close> that differ only in \<^verbatim>\<open>size\<close> have
  the same outcome and leave the same world, the log of pipeline invocations with their
  arguments included: the handler never reads the field.
\<close>

theorem size_is_ignored:
  "generate_images L cfg (request\<lparr>size := s\<rparr>) w = generate_images L cfg request w"
  by (simp add: generate_images_def cong: prod.case_cong sum.case_cong)

theorem size_is_ignored_witness:
  "generate_images example_libs example_config
       (parse_ImageGenerationRequest ''a cat'' (Some 3) (Some ''1024x1024'') None) example_world
   = generate_images example_libs example_config
       (parse_ImageGenerationRequest ''a cat'' (Some 3) (Some ''256x256'') None) example_world"
  using size_is_ignored [where L = example_libs and cfg = example_config and w = example_world
      and request = "parse_ImageGenerationRequest ''a cat'' (Some 3) (Some ''256x256'') None"
      and s = "''1024x1024''"]
  by (simp add: parse_ImageGenerationRequest_def)

subsection \<open>Health\<close>

text \<open>
  Claim C7. \<^verbatim>\<open>GET /health\<close> answers with the status \<^verbatim>\<open>ok\<close>, the device, the model
  identifier and the two capability flags of the configuration, under exactly these five
  keys, and returns the world as it was: no pipeline was invoked.
\<close>

theorem health_reports_config:
  "\<exists>body. health_check cfg w = (Inr (JSONResponse (JObject body)), w)
     \<and> map fst body = [''status'', ''device'', ''model'', ''enable_txt2img'', ''enable_img2img'']
     \<and> map_of body ''status'' = Some (JString ''ok'')
     \<and> map_of body ''device'' = Some (JString (str_device (device cfg)))
     \<and> map_of body ''model'' = Some (JString (MODEL_NAME cfg))
     \<and> map_of body ''enable_txt2img'' = Some (JBool (ENABLE_TXT2IMG cfg))
     \<and> map_of body ''enable_img2img'' = Some (JBool (ENABLE_IMG2IMG cfg))"
  by (simp add: health_check_def)

theorem health_reports_config_witness:
  "\<exists>body. health_check (module_config [''ENABLE_IMG2IMG'' \<mapsto> ''no''] False) example_world
       = (Inr (JSONResponse (JObject body)), example_world)
     \<and> map_of body ''device'' = Some (JString ''cpu'')
     \<and> map_of body ''model'' = Some (JString ''stabilityai/sdxl-turbo'')
     \<and> map_of body ''enable_txt2img'' = Some (JBool True)
     \<and> map_of body ''enable_img2img'' = Some (JBool False)"
  using health_reports_config [of "module_config [''ENABLE_IMG2IMG'' \<mapsto> ''no''] False" example_world]
  by (auto simp add: module_config_def get_env_bool_def lower_str_bool lower_char_def)

subsection \<open>What the handlers leave untouched\<close>

lemma save_image_and_get_url_frame:
  assumes "save_image_and_get_url L img rid w = (r, w1)"
  shows "calls w1 = calls w \<and> time_values w1 = time_values w \<and> time_count w1 = time_count w"
  using assms by (auto simp: save_image_and_get_url_def fs_write_def split: option.splits)


lemma url_responses_calls:
  assumes "url_responses L rid imgs w = (r, w1)"
  shows "calls w1 = calls w"
  using assms
proof (induction imgs arbitrary: w r w1)
  case Nil
  then show ?case by simp
next
  case (Cons img imgs)
  then show ?case
    by (auto simp: time_time_def split: prod.splits sum.splits
          dest!: save_image_and_get_url_frame)
qed

lemma b64_responses_calls:
  assumes "b64_responses L rid imgs w = (es, w1)"
  shows "calls w1 = calls w"
  using assms
proof (induction imgs arbitrary: w es w1)
  case Nil
  then show ?case by simp
next
  case (Cons img imgs)
  then show ?case
    by (auto simp: time_time_def split: prod.splits)
qed

lemma generate_images_calls:
  assumes "ENABLE_TXT2IMG cfg" and "txt2img_pipeline cfg \<noteq> None"
  shows "calls (snd (generate_images L cfg request w))
         = calls w @ [(Txt2imgPipeline,
              [(''prompt'', PyStr (ImageGenerationRequest.prompt request)),
               (''num_inference_steps'', PyInt 30),
               (''guidance_scale'', PyFloat 7.5),
               (''num_images_per_prompt'', PyInt (n request))])]"
  using assms
  by (auto simp: generate_images_def invoke_def uuid4_def split: sum.splits prod.splits
        dest!: url_responses_calls b64_responses_calls)

lemma generate_images_fields:
  assumes "ImageGenerationRequest.prompt request' = ImageGenerationRequest.prompt request"
    and "n request' = n request" and "response_format request' = response_format request"
  shows "generate_images L cfg request' w = generate_images L cfg request w"
  using assms by (simp add: generate_images_def cong: prod.case_cong sum.case_cong)

lemma stored_world_files:
  "files stored_world = [''uploaded_images/3f2b8c1e-0000-4000-8000-000000000000.png'' \<mapsto> ''pixels'']"
  by (simp add: stored_world_def upload_image_def uuid4_def example_world_def example_upload_def
        fs_write_def os_path_join_def IMAGE_DIR_def)

lemma stored_world_calls: "calls stored_world = []"
  by (simp add: stored_world_def upload_image_def uuid4_def example_world_def example_upload_def
        fs_write_def os_path_join_def IMAGE_DIR_def)

lemma txt2img_calls:
  "calls (snd (txt2img L cfg input_data w))
   = (if ENABLE_TXT2IMG cfg \<and> txt2img_pipeline cfg \<noteq> None
      then calls w @ [(Txt2imgPipeline,
             [(''prompt'', PyStr (Txt2ImgInput.prompt input_data)),
              (''negative_prompt'', PyStr (Txt2ImgInput.negative_prompt input_data)),
              (''num_inference_steps'', PyInt (Txt2ImgInput.num_inference_steps input_data)),
              (''guidance_scale'', PyFloat (Txt2ImgInput.guidance_scale input_data))])]
      else calls w)"
  by (auto simp: txt2img_def invoke_def uuid4_def split: sum.splits list.splits)

lemma img2img_calls:
  "calls (snd (img2img L cfg input_data w))
   = (if ENABLE_IMG2IMG cfg \<and> img2img_pipeline cfg \<noteq> None
      then (case files w (os_path_join IMAGE_DIR (file_id input_data @ ''.png'')) of
              None \<Rightarrow> calls w
            | Some content \<Rightarrow>
                (case image_open_rgb L content of
                   Inl e \<Rightarrow> calls w
                 | Inr pil_image \<Rightarrow>
                     calls w @ [(Img2imgPipeline,
                       [(''prompt'', PyStr (Img2ImgInput.prompt input_data)),
                        (''negative_prompt'', PyStr (Img2ImgInput.negative_prompt input_data)),
                        (''image'', PyImage pil_image),
                        (''num_inference_steps'', PyInt (Img2ImgInput.num_inference_steps input_data)),
                        (''strength'', PyFloat (strength input_data)),
                        (''guidance_scale'', PyFloat (Img2ImgInput.guidance_scale input_data))])]))
      else calls w)"
  by (auto simp: img2img_def invoke_def uuid4_def os_path_exists_def
        split: sum.splits list.splits option.splits)

subsection \<open>The invocation made by the generations endpoint\<close>

text \<open>
  Claim C9, as stated, fails on a server whose txt2img capability is disabled: the request
  is rejected and the pipeline is not invoked at all.
\<close>

theorem generations_invocation_counterexample:
  "calls example_world = []
   \<and> calls (snd (generate_images example_libs disabled_config
                   (parse_ImageGenerationRequest ''a cat'' (Some 3) None None) example_world)) = []"
  by (simp add: generate_images_def disabled_config_def example_world_def)

text \<open>
  Claim C9, amended. On a server whose txt2img capability is enabled and loaded, a request
  to \<^verbatim>\<open>/v1/images/generations\<close> invokes the text-to-image pipeline exactly once, with the
  prompt of the request, \<^verbatim>\<open>num_inference_steps=30\<close>, \<^verbatim>\<open>guidance_scale=7.5\<close> and
  \<^verbatim>\<open>num_images_per_prompt\<close> equal to \<^verbatim>\<open>n\<close>; and two requests with the same prompt, \<^verbatim>\<open>n\<close> and
  \<^verbatim>\<open>response_format\<close> have the same outcome and leave the same world.
\<close>

theorem generations_invocation:
  assumes "ENABLE_TXT2IMG cfg" and "txt2img_pipeline cfg \<noteq> None"
  shows "calls (snd (generate_images L cfg request w))
         = calls w @ [(Txt2imgPipeline,
              [(''prompt'', PyStr (ImageGenerationRequest.prompt request)),
               (''num_inference_steps'', PyInt 30),
               (''guidance_scale'', PyFloat 7.5),
               (''num_images_per_prompt'', PyInt (n request))])]
       \<and> (\<forall>request'. ImageGenerationRequest.prompt request' = ImageGenerationRequest.prompt request
             \<and> n request' = n request \<and> response_format request' = response_format request
           \<longrightarrow> generate_images L cfg request' w = generate_images L cfg request w)"
  using generate_images_calls [OF assms] generate_images_fields by blast

theorem generations_invocation_witness:
  "ENABLE_TXT2IMG example_config \<and> txt2img_pipeline example_config \<noteq> None
   \<and> calls (snd (generate_images example_libs example_config
                   (parse_ImageGenerationRequest ''a cat'' (Some 3) None None) example_world))
       = [(Txt2imgPipeline,
            [(''prompt'', PyStr ''a cat''), (''num_inference_steps'', PyInt 30),
             (''guidance_scale'', PyFloat 7.5), (''num_images_per_prompt'', PyInt 3)])]
   \<and> generate_images example_libs example_config
         (parse_ImageGenerationRequest ''a cat'' (Some 3) (Some ''64x64'') None) example_world
       = generate_images example_libs example_config
           (parse_ImageGenerationRequest ''a cat'' (Some 3) None None) example_world"
proof -
  have a: "ENABLE_TXT2IMG example_config" and b: "txt2img_pipeline example_config \<noteq> None"
    by (simp_all add: example_config_def)
  have c: "calls example_world = []"
    by (simp add: example_world_def)
  note g = generations_invocation [OF a b, of example_libs
      "parse_ImageGenerationRequest ''a cat'' (Some 3) None None" example_world]
  from g [THEN conjunct1] have d: "calls (snd (generate_images example_libs example_config
                   (parse_ImageGenerationRequest ''a cat'' (Some 3) None None) example_world))
       = [(Txt2imgPipeline,
            [(''prompt'', PyStr ''a cat''), (''num_inference_steps'', PyInt 30),
             (''guidance_scale'', PyFloat 7.5), (''num_images_per_prompt'', PyInt 3)])]"
    by (simp add: c parse_ImageGenerationRequest_def)
  have e: "generate_images example_libs example_config
         (parse_ImageGenerationRequest ''a cat'' (Some 3) (Some ''64x64'') None) example_world
       = generate_images example_libs example_config
           (parse_ImageGenerationRequest ''a cat'' (Some 3) None None) example_world"
    by (rule g [THEN conjunct2, THEN spec, THEN mp])
       (simp add: parse_ImageGenerationRequest_def)
  from a b d e show ?thesis by (intro conjI)
qed

subsection \<open>Pipeline failures\<close>

text \<open>
  Claim C8, as stated, fails for \<^verbatim>\<open>/v1/images/generations\<close>: when the pipeline raises, the
  detail of the 500 answer is the fixed text \<^verbatim>\<open>Internal server error.\<close>, not the message of
  the exception.
\<close>

theorem pipeline_failure_detail_counterexample:
  "out_of_memory [(''prompt'', PyStr ''a cat''), (''num_inference_steps'', PyInt 30),
                  (''guidance_scale'', PyFloat 7.5), (''num_images_per_prompt'', PyInt 3)] 0
     = Inl ''CUDA out of memory''
   \<and> fst (generate_images example_libs failing_config
            (parse_ImageGenerationRequest ''a cat'' (Some 3) None None) example_world)
     = Inl (HTTPException 500 ''Internal server error.'')"
  by (simp add: generate_images_def failing_config_def example_config_def example_world_def
        out_of_memory_def invoke_def parse_ImageGenerationRequest_def)

text \<open>
  Claim C8, amended. When the pipeline invocation of a request raises an exception with
  message \<open>e\<close>, \<^verbatim>\<open>/txt2img\<close> and \<^verbatim>\<open>/img2img\<close> answer with status 500 and detail \<open>e\<close>, and
  \<^verbatim>\<open>/v1/images/generations\<close> answers with status 500 and the detail
  \<^verbatim>\<open>Internal server error.\<close>
\<close>

theorem pipeline_failure_detail:
  "(ENABLE_TXT2IMG cfg \<and> txt2img_pipeline cfg = Some p
      \<and> p [(''prompt'', PyStr (Txt2ImgInput.prompt input_data)),
            (''negative_prompt'', PyStr (Txt2ImgInput.negative_prompt input_data)),
            (''num_inference_steps'', PyInt (Txt2ImgInput.num_inference_steps input_data)),
            (''guidance_scale'', PyFloat (Txt2ImgInput.guidance_scale input_data))]
           (length (calls w)) = Inl e
    \<longrightarrow> fst (txt2img L cfg input_data w) = Inl (HTTPException 500 e))
   \<and> (ENABLE_IMG2IMG cfg \<and> img2img_pipeline cfg = Some q
      \<and> files w (os_path_join IMAGE_DIR (file_id input_data' @ ''.png'')) = Some content
      \<and> image_open_rgb L content = Inr pil_image
      \<and> q [(''prompt'', PyStr (Img2ImgInput.prompt input_data')),
            (''negative_prompt'', PyStr (Img2ImgInput.negative_prompt input_data')),
            (''image'', PyImage pil_image),
            (''num_inference_steps'', PyInt (Img2ImgInput.num_inference_steps input_data')),
            (''strength'', PyFloat (strength input_data')),
            (''guidance_scale'', PyFloat (Img2ImgInput.guidance_scale input_data'))]
           (length (calls w)) = Inl e
    \<longrightarrow> fst (img2img L cfg input_data' w) = Inl (HTTPException 500 e))
   \<and> (ENABLE_TXT2IMG cfg \<and> txt2img_pipeline cfg = Some p
      \<and> p [(''prompt'', PyStr (ImageGenerationRequest.prompt request)),
            (''num_inference_steps'', PyInt 30),
            (''guidance_scale'', PyFloat 7.5),
            (''num_images_per_prompt'', PyInt (n request))]
           (length (calls w)) = Inl e
    \<longrightarrow> fst (generate_images L cfg request w) = Inl (HTTPException 500 ''Internal server error.''))"
  by (simp add: txt2img_def img2img_def generate_images_def invoke_def os_path_exists_def)

theorem pipeline_failure_detail_witness:
  "fst (txt2img example_libs failing_config (parse_Txt2ImgInput ''a cat'' None None None) stored_world)
     = Inl (HTTPException 500 ''CUDA out of memory'')
   \<and> fst (img2img example_libs failing_config
            (parse_Img2ImgInput ''a cat'' None ''3f2b8c1e-0000-4000-8000-000000000000'' None None None)
            stored_world)
     = Inl (HTTPException 500 ''CUDA out of memory'')
   \<and> fst (generate_images example_libs failing_config
            (parse_ImageGenerationRequest ''a cat'' (Some 3) None None) stored_world)
     = Inl (HTTPException 500 ''Internal server error.'')"
proof -
  note t = pipeline_failure_detail [where L = example_libs and cfg = failing_config
      and w = stored_world and p = out_of_memory and q = out_of_memory
      and e = "''CUDA out of memory''" and content = "''pixels''"
      and pil_image = "Image ''RGB'' (1, 1) ''pixels''"
      and input_data = "parse_Txt2ImgInput ''a cat'' None None None"
      and input_data' = "parse_Img2ImgInput ''a cat'' None ''3f2b8c1e-0000-4000-8000-000000000000'' None None None"
      and request = "parse_ImageGenerationRequest ''a cat'' (Some 3) None None"]
  have a: "fst (txt2img example_libs failing_config (parse_Txt2ImgInput ''a cat'' None None None) stored_world)
     = Inl (HTTPException 500 ''CUDA out of memory'')"
    by (rule t [THEN conjunct1, THEN mp])
       (simp add: failing_config_def example_config_def out_of_memory_def)
  have b: "fst (img2img example_libs failing_config
            (parse_Img2ImgInput ''a cat'' None ''3f2b8c1e-0000-4000-8000-000000000000'' None None None)
            stored_world)
     = Inl (HTTPException 500 ''CUDA out of memory'')"
    by (rule t [THEN conjunct2, THEN conjunct1, THEN mp])
       (simp add: failing_config_def example_config_def out_of_memory_def stored_world_files
          parse_Img2ImgInput_def os_path_join_def IMAGE_DIR_def example_libs_def)
  have c: "fst (generate_images example_libs failing_config
            (parse_ImageGenerationRequest ''a cat'' (Some 3) None None) stored_world)
     = Inl (HTTPException 500 ''Internal server error.'')"
    by (rule t [THEN conjunct2, THEN conjunct2, THEN mp])
       (simp add: failing_config_def example_config_def out_of_memory_def)
  from a b c show ?thesis by (intro conjI)
qed

subsection \<open>Defaults of the request models\<close>

text \<open>
  Claim C10. A request to \<^verbatim>\<open>/txt2img\<close> or \<^verbatim>\<open>/img2img\<close> that omits the optional fields gets
  \<^verbatim>\<open>negative_prompt = ""\<close>, \<^verbatim>\<open>num_inference_steps = 4\<close>, \<^verbatim>\<open>guidance_scale = 7.5\<close> and, for
  \<^verbatim>\<open>/img2img\<close>, \<^verbatim>\<open>strength = 0.5\<close>, and whenever the handler invokes the pipeline (the
  capability is enabled and loaded and, for \<^verbatim>\<open>/img2img\<close>, the upload exists and opens) these
  are the values it passes; otherwise it invokes nothing.
\<close>

theorem omitted_fields_defaults:
  "parse_Txt2ImgInput p None None None
     = \<lparr>Txt2ImgInput.prompt = p, negative_prompt = [], num_inference_steps = 4, guidance_scale = 7.5\<rparr>
   \<and> calls (snd (txt2img L cfg (parse_Txt2ImgInput p None None None) w))
     = (if ENABLE_TXT2IMG cfg \<and> txt2img_pipeline cfg \<noteq> None
        then calls w @ [(Txt2imgPipeline,
               [(''prompt'', PyStr p), (''negative_prompt'', PyStr []),
                (''num_inference_steps'', PyInt 4), (''guidance_scale'', PyFloat 7.5)])]
        else calls w)
   \<and> parse_Img2ImgInput p None fid None None None
     = \<lparr>Img2ImgInput.prompt = p, negative_prompt = [], file_id = fid, num_inference_steps = 4,
        strength = 0.5, guidance_scale = 7.5\<rparr>
   \<and> calls (snd (img2img L cfg (parse_Img2ImgInput p None fid None None None) w))
     = (if ENABLE_IMG2IMG cfg \<and> img2img_pipeline cfg \<noteq> None
        then (case files w (os_path_join IMAGE_DIR (fid @ ''.png'')) of
                None \<Rightarrow> calls w
              | Some content \<Rightarrow>
                  (case image_open_rgb L content of
                     Inl e \<Rightarrow> calls w
                   | Inr pil_image \<Rightarrow>
                       calls w @ [(Img2imgPipeline,
                         [(''prompt'', PyStr p), (''negative_prompt'', PyStr []),
                          (''image'', PyImage pil_image), (''num_inference_steps'', PyInt 4),
                          (''strength'', PyFloat 0.5), (''guidance_scale'', PyFloat 7.5)])]))
        else calls w)"
  by (auto simp: txt2img_calls img2img_calls parse_Txt2ImgInput_def parse_Img2ImgInput_def
        split: option.split sum.split)

theorem omitted_fields_defaults_witness:
  "calls (snd (txt2img example_libs example_config (parse_Txt2ImgInput ''a cat'' None None None)
                 stored_world))
     = [(Txt2imgPipeline,
          [(''prompt'', PyStr ''a cat''), (''negative_prompt'', PyStr []),
           (''num_inference_steps'', PyInt 4), (''guidance_scale'', PyFloat 7.5)])]
   \<and> calls (snd (img2img example_libs example_config
                 (parse_Img2ImgInput ''a cat'' None ''3f2b8c1e-0000-4000-8000-000000000000''
                    None None None) stored_world))
     = [(Img2imgPipeline,
          [(''prompt'', PyStr ''a cat''), (''negative_prompt'', PyStr []),
           (''image'', PyImage (Image ''RGB'' (1, 1) ''pixels'')),
           (''num_inference_steps'', PyInt 4), (''strength'', PyFloat 0.5),
           (''guidance_scale'', PyFloat 7.5)])]"
proof -
  note t = omitted_fields_defaults [of "''a cat''" example_libs example_config stored_world
      "''3f2b8c1e-0000-4000-8000-000000000000''"]
  have a: "ENABLE_TXT2IMG example_config \<and> txt2img_pipeline example_config \<noteq> None
      \<and> ENABLE_IMG2IMG example_config \<and> img2img_pipeline example_config \<noteq> None"
    by (simp add: example_config_def)
  have c: "image_open_rgb example_libs ''pixels'' = Inr (Image ''RGB'' (1, 1) ''pixels'')"
    by (simp add: example_libs_def)
  from t [THEN conjunct2, THEN conjunct1] a
  have d: "calls (snd (txt2img example_libs example_config (parse_Txt2ImgInput ''a cat'' None None None)
                 stored_world))
     = [(Txt2imgPipeline,
          [(''prompt'', PyStr ''a cat''), (''negative_prompt'', PyStr []),
           (''num_inference_steps'', PyInt 4), (''guidance_scale'', PyFloat 7.5)])]"
    by (simp add: stored_world_calls)
  from t [THEN conjunct2, THEN conjunct2, THEN conjunct2] a
  have e: "calls (snd (img2img example_libs example_config
                 (parse_Img2ImgInput ''a cat'' None ''3f2b8c1e-0000-4000-8000-000000000000''
                    None None None) stored_world))
     = [(Img2imgPipeline,
          [(''prompt'', PyStr ''a cat''), (''negative_prompt'', PyStr []),
           (''image'', PyImage (Image ''RGB'' (1, 1) ''pixels'')),
           (''num_inference_steps'', PyInt 4), (''strength'', PyFloat 0.5),
           (''guidance_scale'', PyFloat 7.5)])]"
    by (simp add: stored_world_calls stored_world_files os_path_join_def IMAGE_DIR_def c)
  from d e show ?thesis by (intro conjI)
qed

subsection \<open>The upload store\<close>

text \<open>
  Paths are compared as strings: \<open>os_path_exists\<close> does not resolve \<^verbatim>\<open>..\<close> or links. Two
  identifiers that differ never name the same file, in either directory.
\<close>

lemma upload_path_differs:
  assumes "u \<noteq> fid"
  shows "os_path_join IMAGE_DIR (u @ ''.png'') \<noteq> os_path_join IMAGE_DIR (fid @ ''.png'')"
    and "os_path_join ''output_images'' (u @ ''.png'') \<noteq> os_path_join IMAGE_DIR (fid @ ''.png'')"
  using assms
  by (cases u; cases fid; auto simp: os_path_join_def IMAGE_DIR_def)+

lemma url_responses_store:
  assumes "url_responses L rid imgs w = (r, w1)"
  shows "uuid_values w1 = uuid_values w \<and> uuid_count w1 = uuid_count w
    \<and> (\<forall>path. path \<noteq> os_path_join ''output_images'' (rid @ ''.png'') \<longrightarrow> files w1 path = files w path)"
  using assms
proof (induction imgs arbitrary: w r w1)
  case Nil
  then show ?case by simp
next
  case (Cons img imgs)
  then show ?case
    by (fastforce simp: time_time_def save_image_and_get_url_def fs_write_def
          split: prod.splits sum.splits option.splits)
qed

lemma b64_responses_store:
  assumes "b64_responses L rid imgs w = (es, w1)"
  shows "uuid_values w1 = uuid_values w \<and> uuid_count w1 = uuid_count w \<and> files w1 = files w"
  using assms
proof (induction imgs arbitrary: w es w1)
  case Nil
  then show ?case by simp
next
  case (Cons img imgs)
  then show ?case
    by (fastforce simp: time_time_def split: prod.splits)
qed


lemma serve_store:
  assumes "\<forall>k. uuid_count w \<le> k \<longrightarrow> uuid_values w k \<noteq> fid"
  shows "uuid_values (snd (serve L cfg r w)) = uuid_values w
    \<and> uuid_count w \<le> uuid_count (snd (serve L cfg r w))
    \<and> files (snd (serve L cfg r w)) (os_path_join IMAGE_DIR (fid @ ''.png''))
        = files w (os_path_join IMAGE_DIR (fid @ ''.png''))"
proof (cases r)
  case (POST_txt2img input_data)
  then show ?thesis
    by (auto simp: txt2img_def invoke_def uuid4_def split: sum.splits list.splits)
next
  case (POST_upload upload)
  from assms have "uuid_values w (uuid_count w) \<noteq> fid" by simp
  with POST_upload show ?thesis
    by (auto simp: upload_image_def uuid4_def fs_write_def upload_path_differs
          split: sum.splits option.splits)
next
  case (POST_img2img input_data)
  then show ?thesis
    by (auto simp: img2img_def invoke_def uuid4_def split: sum.splits list.splits)
next
  case (POST_generations request)
  from assms have u: "uuid_values w (uuid_count w) \<noteq> fid" by simp
  show ?thesis
  proof (cases "\<not> ENABLE_TXT2IMG cfg \<or> txt2img_pipeline cfg = None")
    case True
    with POST_generations show ?thesis by (simp add: generate_images_def)
  next
    case False
    with POST_generations u show ?thesis
      by (auto simp: generate_images_def invoke_def uuid4_def upload_path_differs(2) [THEN not_sym]
            split: sum.splits prod.splits
            dest!: url_responses_store b64_responses_store)
  qed
next
  case GET_health
  then show ?thesis by (simp add: health_check_def)
qed

lemma serve_all_store:
  assumes "\<forall>k. uuid_count w \<le> k \<longrightarrow> uuid_values w k \<noteq> fid"
  shows "files (serve_all L cfg rs w) (os_path_join IMAGE_DIR (fid @ ''.png''))
        = files w (os_path_join IMAGE_DIR (fid @ ''.png''))"
  using assms
proof (induction rs arbitrary: w)
  case Nil
  show ?case by simp
next
  case (Cons r rs)
  note s = serve_store [OF Cons.prems, of L cfg r]
  have "\<forall>k. uuid_count (snd (serve L cfg r w)) \<le> k \<longrightarrow> uuid_values (snd (serve L cfg r w)) k \<noteq> fid"
    using s Cons.prems by auto
  from Cons.IH [OF this] s show ?case by simp
qed

lemma upload_image_stores:
  assumes "upload_image file w = (Inr resp, w1)"
  shows "\<exists>content. file_read file = Inr content
    \<and> resp = JSONResponse (JObject [(''file_id'', JString (uuid_values w (uuid_count w)))])
    \<and> files w1 (os_path_join IMAGE_DIR (uuid_values w (uuid_count w) @ ''.png'')) = Some content
    \<and> uuid_values w1 = uuid_values w \<and> uuid_count w1 = Suc (uuid_count w) \<and> calls w1 = calls w"
  using assms
  by (auto simp: upload_image_def uuid4_def fs_write_def split: sum.splits option.splits)

lemma img2img_resolves:
  assumes "ENABLE_IMG2IMG cfg" and "img2img_pipeline cfg \<noteq> None"
    and "files w (os_path_join IMAGE_DIR (file_id input_data @ ''.png'')) = Some content"
  shows "case image_open_rgb L content of
           Inl e \<Rightarrow> img2img L cfg input_data w = (Inl (Uncaught e), w)
         | Inr pil_image \<Rightarrow>
             calls (snd (img2img L cfg input_data w))
             = calls w @ [(Img2imgPipeline,
                 [(''prompt'', PyStr (Img2ImgInput.prompt input_data)),
                  (''negative_prompt'', PyStr (Img2ImgInput.negative_prompt input_data)),
                  (''image'', PyImage pil_image),
                  (''num_inference_steps'', PyInt (Img2ImgInput.num_inference_steps input_data)),
                  (''strength'', PyFloat (strength input_data)),
                  (''guidance_scale'', PyFloat (Img2ImgInput.guidance_scale input_data))])]"
  using assms
  by (auto simp: img2img_def invoke_def uuid4_def os_path_exists_def
        split: sum.splits list.splits)

lemma stored_world_upload:
  "upload_image example_upload example_world
   = (Inr (JSONResponse (JObject [(''file_id'', JString ''3f2b8c1e-0000-4000-8000-000000000000'')])),
      stored_world)"
  by (simp add: stored_world_def upload_image_def uuid4_def example_world_def example_upload_def
        fs_write_def)

lemma stored_world_uuids:
  "\<forall>k. uuid_count stored_world \<le> k
     \<longrightarrow> uuid_values stored_world k \<noteq> ''3f2b8c1e-0000-4000-8000-000000000000''"
  by (simp add: stored_world_def upload_image_def uuid4_def example_world_def example_upload_def
        fs_write_def)

text \<open>
  Claim C5. When \<^verbatim>\<open>/upload\<close> has answered with \<^verbatim>\<open>file_id\<close>, the file
  \<^verbatim>\<open>uploaded_images/<file_id>.png\<close> holds exactly the bytes read from the upload, and it still
  does after any further requests, provided no identifier drawn later equals \<^verbatim>\<open>file_id\<close>
  (\<^verbatim>\<open>uuid4\<close> is taken to be fresh). A later \<^verbatim>\<open>/img2img\<close> request with this \<^verbatim>\<open>file_id\<close>, on a
  server with the capability enabled and loaded, opens exactly these bytes: the image it
  passes to the pipeline is the one PIL decodes from them, and when PIL cannot decode them
  the exception leaves the handler uncaught and no pipeline is invoked.
\<close>

theorem upload_round_trip:
  assumes "upload_image file w = (Inr (JSONResponse (JObject [(''file_id'', JString fid)])), w1)"
    and "\<forall>k. uuid_count w1 \<le> k \<longrightarrow> uuid_values w1 k \<noteq> fid"
    and "ENABLE_IMG2IMG cfg" and "img2img_pipeline cfg \<noteq> None"
    and "file_id input_data = fid"
  shows "\<exists>content. file_read file = Inr content
    \<and> files (serve_all L cfg rs w1) (os_path_join IMAGE_DIR (fid @ ''.png'')) = Some content
    \<and> (case image_open_rgb L content of
          Inl e \<Rightarrow>
            img2img L cfg input_data (serve_all L cfg rs w1) = (Inl (Uncaught e), serve_all L cfg rs w1)
        | Inr pil_image \<Rightarrow>
            calls (snd (img2img L cfg input_data (serve_all L cfg rs w1)))
            = calls (serve_all L cfg rs w1) @ [(Img2imgPipeline,
                [(''prompt'', PyStr (Img2ImgInput.prompt input_data)),
                 (''negative_prompt'', PyStr (Img2ImgInput.negative_prompt input_data)),
                 (''image'', PyImage pil_image),
                 (''num_inference_steps'', PyInt (Img2ImgInput.num_inference_steps input_data)),
                 (''strength'', PyFloat (strength input_data)),
                 (''guidance_scale'', PyFloat (Img2ImgInput.guidance_scale input_data))])])"
proof -
  from upload_image_stores [OF assms(1)] obtain content where
    c: "file_read file = Inr content" and f: "fid = uuid_values w (uuid_count w)"
    and s: "files w1 (os_path_join IMAGE_DIR (fid @ ''.png'')) = Some content"
    by auto
  have l: "files (serve_all L cfg rs w1) (os_path_join IMAGE_DIR (fid @ ''.png'')) = Some content"
    using serve_all_store [OF assms(2), of L cfg rs] s by simp
  from l assms(5) have "files (serve_all L cfg rs w1)
      (os_path_join IMAGE_DIR (file_id input_data @ ''.png'')) = Some content"
    by simp
  from img2img_resolves [OF assms(3) assms(4) this, of L] c l show ?thesis
    by blast
qed


theorem upload_round_trip_witness:
  "upload_image example_upload example_world
     = (Inr (JSONResponse (JObject [(''file_id'', JString ''3f2b8c1e-0000-4000-8000-000000000000'')])),
        stored_world)
   \<and> file_read example_upload = Inr ''pixels''
   \<and> files (serve_all example_libs example_config
               [POST_upload example_upload,
                POST_generations (parse_ImageGenerationRequest ''a cat'' (Some 3) None None),
                GET_health] stored_world)
         (os_path_join IMAGE_DIR (''3f2b8c1e-0000-4000-8000-000000000000'' @ ''.png''))
     = Some ''pixels''
   \<and> (\<exists>before. calls (snd (img2img example_libs example_config
               (parse_Img2ImgInput ''a cat'' None ''3f2b8c1e-0000-4000-8000-000000000000'' None None None)
               (serve_all example_libs example_config
                  [POST_upload example_upload,
                   POST_generations (parse_ImageGenerationRequest ''a cat'' (Some 3) None None),
                   GET_health] stored_world)))
     = before @ [(Img2imgPipeline,
          [(''prompt'', PyStr ''a cat''), (''negative_prompt'', PyStr []),
           (''image'', PyImage (Image ''RGB'' (1, 1) ''pixels'')),
           (''num_inference_steps'', PyInt 4), (''strength'', PyFloat 0.5),
           (''guidance_scale'', PyFloat 7.5)])])"
proof -
  have a: "ENABLE_IMG2IMG example_config" and b: "img2img_pipeline example_config \<noteq> None"
    by (simp_all add: example_config_def)
  have c: "file_id (parse_Img2ImgInput ''a cat'' None ''3f2b8c1e-0000-4000-8000-000000000000''
      None None None) = ''3f2b8c1e-0000-4000-8000-000000000000''"
    by (simp add: parse_Img2ImgInput_def)
  have d: "file_read example_upload = Inr ''pixels''"
    by (simp add: example_upload_def)
  have e: "image_open_rgb example_libs ''pixels'' = Inr (Image ''RGB'' (1, 1) ''pixels'')"
    by (simp add: example_libs_def)
  from upload_round_trip [OF stored_world_upload stored_world_uuids a b c, of example_libs
      "[POST_upload example_upload,
        POST_generations (parse_ImageGenerationRequest ''a cat'' (Some 3) None None),
        GET_health]"]
  show ?thesis
    by (auto simp: d e stored_world_upload parse_Img2ImgInput_def)
qed

subsection \<open>The entries of a generations response\<close>



text \<open>
  With \<^verbatim>\<open>response_format = "url"\<close> every image of the request is saved under the one
  identifier of the request: each save overwrites the file of the one before, and only the
  last image is left on disk.
\<close>

lemma url_images_overwritten:
  "files (snd (generate_images example_libs example_config
                 (parse_ImageGenerationRequest ''a cat'' (Some 3) None (Some ''url'')) example_world))
   = [''output_images/3f2b8c1e-0000-4000-8000-000000000000.png'' \<mapsto> ''PNGc'']"
  by (simp add: generate_images_def invoke_def uuid4_def time_time_def save_image_and_get_url_def
        fs_write_def parse_ImageGenerationRequest_def os_path_join_def
        example_config_def three_images_def example_libs_def example_world_def)





subsection \<open>One pipeline invocation at a time\<close>

lemma handler_code_enter_then_exit:
  assumes "i < length (handler_code ep passes t)" and "handler_code ep passes t ! i = PipelineEnter"
  shows "Suc i < length (handler_code ep passes t) \<and> handler_code ep passes t ! Suc i = PipelineExit"
proof -
  have "i = 0 \<or> i = 1 \<or> i = 2 \<or> i = 3 \<or> 4 \<le> i" by arith
  with assms show ?thesis
    by (cases ep; cases passes) auto
qed

lemma server_code_enter_then_exit: "enter_then_exit (server_code reqs)"
  unfolding enter_then_exit_def server_code_def
  using handler_code_enter_then_exit by blast

lemma request_lock_private:
  assumes "Acquire (request_lock t') \<in> set (server_code reqs t)"
  shows "t' = t"
  using assms by (cases "fst (reqs t)"; cases "snd (reqs t)") (auto simp: server_code_def)

lemma pipeline_owner_initial: "pipeline_owner code initial"
  by (simp add: pipeline_owner_def in_pipeline_def initial_def)

lemma in_pipeline_running [simp]: "in_pipeline code (s\<lparr>running := r\<rparr>) t = in_pipeline code s t"
  by (simp add: in_pipeline_def)

lemma in_pipeline_locked [simp]: "in_pipeline code (s\<lparr>locked := l\<rparr>) t = in_pipeline code s t"
  by (simp add: in_pipeline_def)

lemma in_pipeline_advance:
  assumes "pc s t0 < length (code t0)"
  shows "in_pipeline code (s\<lparr>pc := (pc s)(t0 := Suc (pc s t0))\<rparr>) t
    = (if t = t0 then code t0 ! pc s t0 = PipelineEnter else in_pipeline code s t)"
  using assms by (simp add: in_pipeline_def)

lemma pipeline_owner_running:
  assumes "pipeline_owner code s" and "in_pipeline code s t"
  shows "running s = Some t"
  using assms by (simp add: pipeline_owner_def)

lemma pipeline_owner_idle:
  assumes "pipeline_owner code s" and "running s = None"
  shows "\<not> in_pipeline code s t"
  using assms by (auto simp: pipeline_owner_def)

lemma pipeline_owner_exec:
  assumes w: "enter_then_exit code" and o: "pipeline_owner code s"
    and r: "running s = Some t0" and p: "pc s t0 < length (code t0)"
  shows "pipeline_owner code (exec (code t0 ! pc s t0) t0 s)"
proof -
  have others: "\<not> in_pipeline code s t" if "t \<noteq> t0" for t
    using o r that by (auto simp: pipeline_owner_def)
  have mine: "code t0 ! pc s t0 = PipelineExit" if "in_pipeline code s t0"
    using o that by (auto simp: pipeline_owner_def)
  show ?thesis
  proof (cases "code t0 ! pc s t0")
    case (Acquire l)
    with mine have "\<not> in_pipeline code s t0" by auto
    with others have "\<not> in_pipeline code s t" for t by (cases "t = t0") auto
    with Acquire p show ?thesis
      by (auto simp: pipeline_owner_def in_pipeline_advance)
  next
    case (Release l)
    with others p show ?thesis
      by (auto simp: pipeline_owner_def in_pipeline_advance)
  next
    case PipelineEnter
    from w p PipelineEnter have "Suc (pc s t0) < length (code t0) \<and> code t0 ! Suc (pc s t0) = PipelineExit"
      by (auto simp: enter_then_exit_def)
    with PipelineEnter others p r show ?thesis
      by (auto simp: pipeline_owner_def in_pipeline_advance)
  next
    case PipelineExit
    with others p show ?thesis
      by (auto simp: pipeline_owner_def in_pipeline_advance)
  next
    case AwaitIO
    with others p show ?thesis
      by (auto simp: pipeline_owner_def in_pipeline_advance)
  qed
qed

lemma pipeline_owner_step:
  assumes "enter_then_exit code" and "pipeline_owner code s"
  shows "pipeline_owner code (loop_step code choice s)"
proof (cases "running s")
  case None
  with pipeline_owner_idle [OF assms(2) None] show ?thesis
    by (auto simp: loop_step_def pipeline_owner_def)
next
  case (Some t0)
  show ?thesis
  proof (cases "pc s t0 < length (code t0)")
    case True
    with pipeline_owner_exec [OF assms Some True] Some show ?thesis
      by (simp add: loop_step_def)
  next
    case False
    have "\<not> in_pipeline code s t" for t
      using assms(2) Some False by (auto simp: pipeline_owner_def)
    with Some False show ?thesis
      by (auto simp: loop_step_def pipeline_owner_def)
  qed
qed

lemma pipeline_owner_run:
  assumes "enter_then_exit code" and "pipeline_owner code s"
  shows "pipeline_owner code (loop_run code choices s)"
  using assms(2)
proof (induction choices arbitrary: s)
  case Nil
  then show ?case by simp
next
  case (Cons c cs)
  from Cons.IH [OF pipeline_owner_step [OF assms(1) Cons.prems]] show ?case by simp
qed

text \<open>
  Claim C1. For every assignment of requests to tasks (any number of calls to
  \<^verbatim>\<open>/txt2img\<close>, \<^verbatim>\<open>/img2img\<close>, \<^verbatim>\<open>/v1/images/generations\<close>, and to the other routes) and every
  schedule of the event loop, in every state the loop reaches at most one task is inside a
  pipeline invocation. The proof does not use the locks: no handler has a suspending await
  between the entry into the pipeline call and its return, so a task inside the pipeline
  is the task that has the thread. (The lock of \<^verbatim>\<open>generate_images\<close> is made anew for every
  request and is never taken by another task.)
\<close>

theorem one_pipeline_invocation_at_a_time:
  assumes "in_pipeline (server_code reqs) (loop_run (server_code reqs) choices initial) t"
    and "in_pipeline (server_code reqs) (loop_run (server_code reqs) choices initial) t'"
  shows "t = t'"
proof -
  have "pipeline_owner (server_code reqs) (loop_run (server_code reqs) choices initial)"
    by (rule pipeline_owner_run [OF server_code_enter_then_exit pipeline_owner_initial])
  from pipeline_owner_running [OF this assms(1)] pipeline_owner_running [OF this assms(2)]
  show ?thesis by simp
qed

theorem one_pipeline_invocation_at_a_time_witness:
  "in_pipeline (server_code (\<lambda>t. (if t = 0 then Txt2img else Generations, True)))
     (loop_run (server_code (\<lambda>t. (if t = 0 then Txt2img else Generations, True)))
        [2, 0, 1] initial) 2
   \<and> \<not> in_pipeline (server_code (\<lambda>t. (if t = 0 then Txt2img else Generations, True)))
     (loop_run (server_code (\<lambda>t. (if t = 0 then Txt2img else Generations, True)))
        [2, 0, 1] initial) 0
   \<and> \<not> in_pipeline (server_code (\<lambda>t. (if t = 0 then Txt2img else Generations, True)))
     (loop_run (server_code (\<lambda>t. (if t = 0 then Txt2img else Generations, True)))
        [2, 0, 1] initial) 1"
proof -
  have a: "in_pipeline (server_code (\<lambda>t. (if t = 0 then Txt2img else Generations, True)))
     (loop_run (server_code (\<lambda>t. (if t = 0 then Txt2img else Generations, True)))
        [2, 0, 1] initial) 2"
    by (simp add: in_pipeline_def loop_step_def server_code_def initial_def)
  from one_pipeline_invocation_at_a_time [OF a, of 0]
    one_pipeline_invocation_at_a_time [OF a, of 1] a
  show ?thesis by auto
qed

end
